theory Spec2Isabelle
  imports Main "HOL-Library.Word"
begin

section \<open>The libcamera input plugin of mjpg-streamer\<close>

text \<open>
  The development embeds \<^verbatim>\<open>plugins/input_libcamera/input_libcamera.cpp\<close>.
  The file holds two variants of the plugin: one that receives RGB888 frames and
  encodes them to JPEG in software, and one that receives MJPEG frames from the camera.
  The functions \<^verbatim>\<open>copy_frame\<close>, \<^verbatim>\<open>worker_cleanup\<close>, \<^verbatim>\<open>input_stop\<close>,
  \<^verbatim>\<open>input_run\<close> and \<^verbatim>\<open>input_cmd\<close> are the same in both; \<^verbatim>\<open>process_frame\<close>
  and the argument loop of \<^verbatim>\<open>input_init\<close> differ and are modelled per variant.
\<close>

subsection \<open>Data model\<close>

type_synonym byte = "8 word"

text \<open>\<^verbatim>\<open>struct timeval\<close>, as filled in by \<^verbatim>\<open>gettimeofday\<close>.\<close>

record timeval =
  tv_sec :: int
  tv_usec :: int

text \<open>
  One input channel, \<^verbatim>\<open>pglobal->in[i]\<close>. The declaration of the structure lives in
  \<^verbatim>\<open>mjpg_streamer.h\<close>, which the plugin includes. The fields \<open>buf\<close>, \<open>size_in\<close>
  (\<^verbatim>\<open>size\<close> in the source) and \<open>timestamp\<close> are the ones the plugin reads and writes;
  \<open>buf\<close> is \<open>None\<close> for the null pointer and otherwise the bytes of the allocated block.
  The mutex \<^verbatim>\<open>db\<close> and the condition \<^verbatim>\<open>db_update\<close> appear as events, below.

  Modelled from the spec: the declaration of the channel structure is missing, and the
  data model of the specification gives every frame a sequence number and every input
  channel a liveness flag; they are the fields \<open>sequence\<close> and \<open>alive\<close>.
\<close>

record input =
  buf :: "byte list option"
  size_in :: nat
  timestamp :: timeval
  sequence :: nat
  alive :: bool

text \<open>
  The process-wide state, \<^verbatim>\<open>*pglobal\<close>: the stop flag and the array of input
  channels (\<open>inp\<close> is \<^verbatim>\<open>in\<close> in the source). The flag is tested as a truth value and
  only ever assigned \<^verbatim>\<open>1\<close>, so it is a \<open>bool\<close>.
\<close>

record globals =
  stop :: bool
  inp :: "input list"

text \<open>
  A frame buffer handed over by the camera. Each plane is given by what \<^verbatim>\<open>mmap\<close>
  returns for it: \<open>None\<close> for \<^verbatim>\<open>MAP_FAILED\<close>, otherwise the mapped bytes.
  \<open>bytesused\<close> is \<^verbatim>\<open>metadata().planes()[0].bytesused\<close>.
\<close>

record FrameBuffer =
  planes :: "byte list option list"
  bytesused :: nat

text \<open>A capture request: its status and the first buffer attached to it.\<close>

record Request =
  cancelled :: bool
  fb :: FrameBuffer

text \<open>
  \<^verbatim>\<open>class CameraContext\<close>: the queue of completed requests, the flag \<^verbatim>\<open>running\<close>,
  and whether the pointer \<^verbatim>\<open>camera\<close> is set. The other members are objects of the
  camera library, which is a collaborator of the plugin.
\<close>

record CameraContext =
  completed_requests :: "Request list"
  running :: bool
  camera :: bool

type_synonym thread = nat

text \<open>
  The file-level statics of the plugin, together with the function-level statics
  \<^verbatim>\<open>first_run\<close> (of \<^verbatim>\<open>worker_cleanup\<close>, initially 1) and \<^verbatim>\<open>frame_num\<close>
  (of the software variant's \<^verbatim>\<open>process_frame\<close>, initially 0). \<open>worker\<close> is \<open>None\<close> as long
  as \<^verbatim>\<open>pthread_create\<close> has not stored a handle.
\<close>

record plugin =
  plugin_number :: nat
  worker :: "thread option"
  width :: int
  height :: int
  fps :: int
  quality :: int
  camera_id :: int
  ctx :: "CameraContext option"
  first_run :: bool
  frame_num :: int

text \<open>
  Calls into the thread library and the allocator that a function makes, in the order
  it makes them. The index of \<open>MutexLock\<close>, \<open>MutexUnlock\<close>, \<open>CondBroadcast\<close> names the
  channel whose \<^verbatim>\<open>db\<close> or \<^verbatim>\<open>db_update\<close> is used; \<open>FreeBuf i\<close> is \<^verbatim>\<open>free\<close> applied to
  the buffer of channel \<open>i\<close>. \<open>QueueLock\<close> and \<open>QueueUnlock\<close> are the construction and the
  destruction of the \<^verbatim>\<open>std::lock_guard\<close> on \<^verbatim>\<open>ctx->queue_mutex\<close>.
\<close>

datatype event =
    MutexLock nat
  | MutexUnlock nat
  | CondBroadcast nat
  | FreeBuf nat
  | ThreadCreate
  | ThreadDetach "thread option"
  | ThreadJoin "thread option"
  | Usleep nat
  | QueueRequest
  | CameraStop
  | QueueLock
  | QueueUnlock

subsection \<open>Publishing a frame: \<^verbatim>\<open>copy_frame\<close>\<close>

text \<open>
  \<^verbatim>\<open>copy_frame(buffer, length)\<close>. \<open>malloc_ok\<close> tells whether \<^verbatim>\<open>malloc(length)\<close>
  returns a block, \<open>now\<close> is what \<^verbatim>\<open>gettimeofday\<close> delivers. The old block is freed
  first; when the allocation fails the function unlocks and returns with the pointer
  null. Otherwise \<^verbatim>\<open>memcpy\<close> copies the first \<open>len\<close> bytes of \<open>buffer\<close>, the size and
  the timestamp are stored and the waiters are woken.
\<close>

definition copy_frame ::
  "bool \<Rightarrow> timeval \<Rightarrow> byte list \<Rightarrow> nat \<Rightarrow> plugin \<Rightarrow> globals \<Rightarrow> globals \<times> event list" where
  "copy_frame malloc_ok now buffer len p g =
     (let i = plugin_number p;
          ch = inp g ! i;
          freed = (if buf ch \<noteq> None then [FreeBuf i] else [])
      in if \<not> malloc_ok
         then (g\<lparr>inp := (inp g)[i := ch\<lparr>buf := None\<rparr>]\<rparr>,
               [MutexLock i] @ freed @ [MutexUnlock i])
         else (g\<lparr>inp := (inp g)[i := ch\<lparr>buf := Some (take len buffer),
                                            size_in := len,
                                            timestamp := now\<rparr>]\<rparr>,
               [MutexLock i] @ freed @ [CondBroadcast i, MutexUnlock i]))"

subsection \<open>Return values\<close>

text \<open>
  The plugin's entry points return an \<^verbatim>\<open>int\<close>. The header comment of
  \<^verbatim>\<open>input_init\<close> fixes the convention: ``0 if everything is OK, other values signal
  an error''.
\<close>

definition status_ok :: "int \<Rightarrow> bool" where
  "status_ok r \<longleftrightarrow> r = 0"

subsection \<open>Releasing the buffer: \<^verbatim>\<open>worker_cleanup\<close>\<close>

definition worker_cleanup :: "plugin \<Rightarrow> globals \<Rightarrow> plugin \<times> globals \<times> event list" where
  "worker_cleanup p g =
     (if \<not> first_run p then (p, g, [])
      else
        let p' = p\<lparr>first_run := False\<rparr>;
            i = plugin_number p
        in if buf (inp g ! i) \<noteq> None
           then (p', g\<lparr>inp := (inp g)[i := (inp g ! i)\<lparr>buf := None\<rparr>]\<rparr>, [FreeBuf i])
           else (p', g, []))"

text \<open>\<open>n\<close> calls of \<^verbatim>\<open>worker_cleanup\<close> in a row, with all the events they make.\<close>

fun worker_cleanup_times :: "nat \<Rightarrow> plugin \<Rightarrow> globals \<Rightarrow> plugin \<times> globals \<times> event list" where
  "worker_cleanup_times 0 p g = (p, g, [])"
| "worker_cleanup_times (Suc n) p g =
     (case worker_cleanup p g of
        (p', g', evs) \<Rightarrow>
          (case worker_cleanup_times n p' g' of
             (p'', g'', evs') \<Rightarrow> (p'', g'', evs @ evs')))"

definition frees :: "event list \<Rightarrow> nat" where
  "frees evs = length (filter (\<lambda>e. case e of FreeBuf _ \<Rightarrow> True | _ \<Rightarrow> False) evs)"

subsection \<open>The entry points \<^verbatim>\<open>input_stop\<close>, \<^verbatim>\<open>input_run\<close>, \<^verbatim>\<open>input_cmd\<close>\<close>

text \<open>
  \<^verbatim>\<open>input_stop(id)\<close>: returns at once when the stop flag is already set; otherwise
  sets it and calls \<^verbatim>\<open>pthread_join(worker, NULL)\<close>. The result is the new
  process-wide state, the returned status and the calls made.
\<close>

definition input_stop :: "nat \<Rightarrow> plugin \<Rightarrow> globals \<Rightarrow> globals \<times> int \<times> event list" where
  "input_stop ident p g =
     (if stop g then (g, 0, [])
      else (g\<lparr>stop := True\<rparr>, 0, [ThreadJoin (worker p)]))"

text \<open>
  \<^verbatim>\<open>input_run(id)\<close>. \<open>created\<close> is the outcome of \<^verbatim>\<open>pthread_create\<close>: \<open>None\<close> when
  it fails, otherwise the handle it stores in \<^verbatim>\<open>worker\<close>. The buffer pointer and the
  size of channel \<open>ident\<close> are reset without a \<^verbatim>\<open>free\<close>.
\<close>

definition input_run ::
  "thread option \<Rightarrow> nat \<Rightarrow> plugin \<Rightarrow> globals \<Rightarrow> plugin \<times> globals \<times> int \<times> event list" where
  "input_run created ident p g =
     (let g1 = g\<lparr>inp := (inp g)[ident := (inp g ! ident)\<lparr>buf := None, size_in := 0\<rparr>]\<rparr>
      in case created of
           None \<Rightarrow>
             (case worker_cleanup p g1 of
                (p', g2, evs) \<Rightarrow> (p', g2, - 1, ThreadCreate # evs))
         | Some t \<Rightarrow>
             (p\<lparr>worker := Some t\<rparr>, g1, 0, [ThreadCreate, ThreadDetach (Some t)]))"

text \<open>
  \<^verbatim>\<open>input_cmd(plugin, control_id, group, value, value_str)\<close>: ``Commands not yet
  implemented''; the body is \<^verbatim>\<open>return 0\<close>.
\<close>

definition input_cmd :: "int \<Rightarrow> 32 word \<Rightarrow> 32 word \<Rightarrow> int \<Rightarrow> string option \<Rightarrow> int" where
  "input_cmd plugin_arg control_id group_arg value_arg value_str = 0"

subsection \<open>Argument parsing: \<^verbatim>\<open>input_init\<close>\<close>

text \<open>
  The C library's \<^verbatim>\<open>atoi\<close>: leading white space, an optional sign, then decimal
  digits up to the first other character. For a value outside the range of \<^verbatim>\<open>int\<close>
  the C standard leaves the result open; the model follows the usual implementation,
  \<^verbatim>\<open>(int) strtol(s, NULL, 10)\<close> with a \<^verbatim>\<open>long\<close> of 64 bits: \<^verbatim>\<open>strtol\<close> stops at the
  ends of the range of \<^verbatim>\<open>long\<close>, and the conversion to \<^verbatim>\<open>int\<close> keeps the low 32 bits.
\<close>

definition isspace :: "char \<Rightarrow> bool" where
  "isspace c \<longleftrightarrow> (of_char c :: nat) = 32 \<or> (9 \<le> (of_char c :: nat) \<and> (of_char c :: nat) \<le> 13)"

definition isdigit :: "char \<Rightarrow> bool" where
  "isdigit c \<longleftrightarrow> 48 \<le> (of_char c :: nat) \<and> (of_char c :: nat) \<le> 57"

fun atoi_digits :: "int \<Rightarrow> string \<Rightarrow> int" where
  "atoi_digits acc [] = acc"
| "atoi_digits acc (c # cs) =
     (if isdigit c then atoi_digits (acc * 10 + (int (of_char c) - 48)) cs else acc)"

definition strtol :: "string \<Rightarrow> int" where
  "strtol s =
     (let parsed =
        (case dropWhile isspace s of
           [] \<Rightarrow> 0
         | c # cs \<Rightarrow>
             if c = CHR ''-'' then - atoi_digits 0 cs
             else if c = CHR ''+'' then atoi_digits 0 cs
             else atoi_digits 0 (c # cs))
      in max (- (2 ^ 63)) (min (2 ^ 63 - 1) parsed))"

definition atoi :: "string \<Rightarrow> int" where
  "atoi s = sint (word_of_int (strtol s) :: 32 word)"

datatype variant = Software | Mjpeg

text \<open>
  The loop \<^verbatim>\<open>for (i = 0; i < param->argc; i++)\<close> over \<^verbatim>\<open>param->argv\<close>, as a
  recursion over the arguments from index \<open>i\<close> on. An argument is \<open>None\<close> for a null
  pointer. \<^verbatim>\<open>i + 1 >= param->argc\<close> holds exactly when no argument follows. The
  result is \<open>None\<close> where the source dereferences a null pointer: \<^verbatim>\<open>strcmp(arg, ...)\<close>
  in the MJPEG variant, which has no null check, and \<^verbatim>\<open>atoi(param->argv[++i])\<close> in
  both. Otherwise it is the returned status with the statics as the loop leaves them.
\<close>

fun parse_loop :: "variant \<Rightarrow> string option list \<Rightarrow> plugin \<Rightarrow> (int \<times> plugin) option" where
  "parse_loop v [] p = Some (0, p)"
| "parse_loop v (None # rest) p =
     (case v of Software \<Rightarrow> parse_loop v rest p | Mjpeg \<Rightarrow> None)"
| "parse_loop v (Some arg # rest) p =
     (if arg = ''-h'' \<or> arg = ''--help'' then Some (1, p)
      else if arg = ''-fps'' \<or> arg = ''--framerate'' then
        (case rest of
           [] \<Rightarrow> Some (1, p)
         | None # rest' \<Rightarrow> None
         | Some val # rest' \<Rightarrow> parse_loop v rest' (p\<lparr>fps := atoi val\<rparr>))
      else if arg = ''-x'' \<or> arg = ''--width'' then
        (case rest of
           [] \<Rightarrow> Some (1, p)
         | None # rest' \<Rightarrow> None
         | Some val # rest' \<Rightarrow> parse_loop v rest' (p\<lparr>width := atoi val\<rparr>))
      else if arg = ''-y'' \<or> arg = ''--height'' then
        (case rest of
           [] \<Rightarrow> Some (1, p)
         | None # rest' \<Rightarrow> None
         | Some val # rest' \<Rightarrow> parse_loop v rest' (p\<lparr>height := atoi val\<rparr>))
      else if arg = ''-quality'' then
        (case rest of
           [] \<Rightarrow> Some (1, p)
         | None # rest' \<Rightarrow> None
         | Some val # rest' \<Rightarrow> parse_loop v rest' (p\<lparr>quality := atoi val\<rparr>))
      else if arg = ''-camera'' then
        (case rest of
           [] \<Rightarrow> Some (1, p)
         | None # rest' \<Rightarrow> None
         | Some val # rest' \<Rightarrow> parse_loop v rest' (p\<lparr>camera_id := atoi val\<rparr>))
      else parse_loop v rest p)"

text \<open>
  \<^verbatim>\<open>input_init(param, id)\<close>. The assignment \<^verbatim>\<open>pglobal = param->global\<close> binds the
  plugin to the process-wide state, which the model passes to every function that uses
  it; \<^verbatim>\<open>input_init\<close> itself reads and writes none of its fields.
\<close>

definition input_init :: "variant \<Rightarrow> string option list \<Rightarrow> nat \<Rightarrow> plugin \<Rightarrow> (int \<times> plugin) option" where
  "input_init v argv ident p = parse_loop v argv (p\<lparr>plugin_number := ident\<rparr>)"

subsection \<open>Software encoding: \<^verbatim>\<open>rgb_to_jpeg\<close>\<close>

text \<open>
  The JPEG library is a collaborator of the plugin. An \<open>encoder\<close> stands for one
  compression session writing to memory: from \<^verbatim>\<open>image_width\<close>,
  \<^verbatim>\<open>image_height\<close>, the quality and the scan lines passed to
  \<^verbatim>\<open>jpeg_write_scanlines\<close>, in order, it gives the bytes that
  \<^verbatim>\<open>jpeg_finish_compress\<close> leaves in \<^verbatim>\<open>outbuffer\<close>; \<^verbatim>\<open>outlen\<close> is their number.
\<close>

type_synonym encoder = "nat \<Rightarrow> nat \<Rightarrow> int \<Rightarrow> byte list list \<Rightarrow> byte list"

text \<open>
  The inner loop \<^verbatim>\<open>for (x = 0; x < img_width; x++)\<close>. The first argument counts
  the iterations that remain; \<open>src\<close> and \<open>dst\<close> are the offsets of the two moving
  pointers into the RGB data and into the line buffer.
\<close>

fun swap_loop :: "nat \<Rightarrow> byte list \<Rightarrow> nat \<Rightarrow> nat \<Rightarrow> byte list \<Rightarrow> byte list" where
  "swap_loop 0 rgb src dst line = line"
| "swap_loop (Suc n) rgb src dst line =
     swap_loop n rgb (src + 3) (dst + 3)
       (line[dst := rgb ! (src + 2), dst + 1 := rgb ! (src + 1), dst + 2 := rgb ! src])"

text \<open>
  The loop \<^verbatim>\<open>while (cinfo.next_scanline < cinfo.image_height)\<close>. The first argument
  counts the scan lines that remain, \<open>y\<close> is \<^verbatim>\<open>cinfo.next_scanline\<close>, which each
  \<^verbatim>\<open>jpeg_write_scanlines\<close> advances by one. The offset
  \<^verbatim>\<open>cinfo.next_scanline * img_width * 3\<close> is computed in \<^verbatim>\<open>unsigned int\<close>, so it
  wraps at \<open>2 ^ 32\<close>. The result lists the scan lines handed to the compressor.
\<close>

fun scan_loop :: "nat \<Rightarrow> nat \<Rightarrow> int \<Rightarrow> byte list \<Rightarrow> byte list \<Rightarrow> byte list list" where
  "scan_loop 0 y img_width rgb line = []"
| "scan_loop (Suc k) y img_width rgb line =
     (let src = unat ((word_of_nat y :: 32 word) * word_of_int img_width * 3);
          line' = swap_loop (nat img_width) rgb src 0 line
      in line' # scan_loop k (Suc y) img_width rgb line')"

text \<open>
  \<^verbatim>\<open>rgb_to_jpeg(rgb_data, img_width, img_height, &jpeg_data, &jpeg_size)\<close>.
  \<open>rgb_data\<close> is \<open>None\<close> for a null pointer. \<open>line_alloc\<close> is the outcome of
  \<^verbatim>\<open>malloc(img_width * 3)\<close>: \<open>None\<close> when it fails, otherwise the contents of the
  fresh block, by offset. The result is the returned status and, when that is 0, the
  values stored in \<^verbatim>\<open>*jpeg_data\<close> and \<^verbatim>\<open>*jpeg_size\<close>.
\<close>

definition rgb_to_jpeg ::
  "encoder \<Rightarrow> int \<Rightarrow> (nat \<Rightarrow> byte) option \<Rightarrow> byte list option \<Rightarrow> int \<Rightarrow> int
     \<Rightarrow> int \<times> (byte list \<times> nat) option" where
  "rgb_to_jpeg enc q line_alloc rgb_data img_width img_height =
     (case rgb_data of
        None \<Rightarrow> (- 1, None)
      | Some rgb \<Rightarrow>
          (case line_alloc of
             None \<Rightarrow> (- 1, None)
           | Some block \<Rightarrow>
               let line_buffer = map block [0..<nat (img_width * 3)];
                   image_width = unat (word_of_int img_width :: 32 word);
                   image_height = unat (word_of_int img_height :: 32 word);
                   outbuffer = enc image_width image_height q
                                 (scan_loop image_height 0 img_width rgb line_buffer)
               in (0, Some (outbuffer, length outbuffer))))"

text \<open>
  What the header comment of \<^verbatim>\<open>rgb_to_jpeg\<close> promises, written on the data: the
  image cut into rows of \<open>3 * w\<close> bytes, and a row with the first and the third byte
  of every pixel exchanged.
\<close>

fun swap_rb :: "byte list \<Rightarrow> byte list" where
  "swap_rb (r # g # b # rest) = b # g # r # swap_rb rest"
| "swap_rb rest = rest"

definition image_row :: "nat \<Rightarrow> byte list \<Rightarrow> nat \<Rightarrow> byte list" where
  "image_row w rgb y = take (3 * w) (drop (y * (3 * w)) rgb)"

definition swapped_rows :: "nat \<Rightarrow> nat \<Rightarrow> byte list \<Rightarrow> byte list list" where
  "swapped_rows w h rgb = map (\<lambda>y. swap_rb (image_row w rgb y)) [0..<h]"

text \<open>The compressed form of the image with the first and third byte of every pixel exchanged.\<close>

definition encoded_swapped :: "encoder \<Rightarrow> int \<Rightarrow> int \<Rightarrow> int \<Rightarrow> byte list \<Rightarrow> byte list" where
  "encoded_swapped enc q w h rgb = enc (nat w) (nat h) q (swapped_rows (nat w) (nat h) rgb)"

subsection \<open>The worker thread\<close>

text \<open>
  What the surroundings contribute to one pass of the capture loop: the requests the
  camera completes (each goes through the callback \<^verbatim>\<open>requestComplete\<close>), the
  outcome of the two allocations, the clock, whether \<^verbatim>\<open>queueRequest\<close> accepts the
  request again, and whether another thread sets the stop flag during the pass. The
  two lock calls of a pass have no timeout: \<open>queue_granted\<close> and \<open>db_granted\<close> tell
  whether the thread that holds \<^verbatim>\<open>queue_mutex\<close>, or the mutex \<^verbatim>\<open>db\<close> of the
  channel, ever releases it, so that the lock call returns.
\<close>

record iter_env =
  arrivals :: "Request list"
  frame_alloc :: bool
  line_block :: "(nat \<Rightarrow> byte) option"
  clock :: timeval
  requeue_ok :: bool
  stop_signal :: bool
  queue_granted :: bool
  db_granted :: bool

text \<open>
  The callback \<^verbatim>\<open>requestComplete\<close>, which the camera's thread runs (under
  \<^verbatim>\<open>queue_mutex\<close>) for every completed request.
\<close>

definition requestComplete :: "Request \<Rightarrow> plugin \<Rightarrow> plugin" where
  "requestComplete request p =
     (case ctx p of
        None \<Rightarrow> p
      | Some c \<Rightarrow>
          if cancelled request then p
          else p\<lparr>ctx := Some (c\<lparr>completed_requests := completed_requests c @ [request]\<rparr>)\<rparr>)"

text \<open>
  \<^verbatim>\<open>process_frame(fb)\<close>, one definition per variant. The result is \<open>None\<close> where the
  source indexes an empty vector of planes. The diagnostic output is not modelled.
\<close>

definition process_frame_sw ::
  "encoder \<Rightarrow> iter_env \<Rightarrow> FrameBuffer \<Rightarrow> plugin \<Rightarrow> globals
     \<Rightarrow> (plugin \<times> globals \<times> event list) option" where
  "process_frame_sw enc e frame p g =
     (let p1 = p\<lparr>frame_num := frame_num p + 1\<rparr>
      in if length (planes frame) \<noteq> 1 then Some (p1, g, [])
         else
           (case planes frame ! 0 of
              None \<Rightarrow> Some (p1, g, [])
            | Some rgb_mem \<Rightarrow>
                (case rgb_to_jpeg enc (quality p1) (line_block e) (Some rgb_mem)
                        (width p1) (height p1) of
                   (r, Some (jpeg_data, jpeg_size)) \<Rightarrow>
                     if r = 0
                     then (case copy_frame (frame_alloc e) (clock e) jpeg_data jpeg_size p1 g of
                             (g', evs) \<Rightarrow> Some (p1, g', evs))
                     else Some (p1, g, [])
                 | (r, None) \<Rightarrow> Some (p1, g, []))))"

definition process_frame_mjpeg ::
  "iter_env \<Rightarrow> FrameBuffer \<Rightarrow> plugin \<Rightarrow> globals \<Rightarrow> (plugin \<times> globals \<times> event list) option" where
  "process_frame_mjpeg e frame p g =
     (case planes frame of
        [] \<Rightarrow> None
      | plane # others \<Rightarrow>
          (case plane of
             None \<Rightarrow> Some (p, g, [])
           | Some mem \<Rightarrow>
               (case copy_frame (frame_alloc e) (clock e) mem (bytesused frame) p g of
                  (g', evs) \<Rightarrow> Some (p, g', evs))))"

definition process_frame ::
  "variant \<Rightarrow> encoder \<Rightarrow> iter_env \<Rightarrow> FrameBuffer \<Rightarrow> plugin \<Rightarrow> globals
     \<Rightarrow> (plugin \<times> globals \<times> event list) option" where
  "process_frame v enc e frame p g =
     (case v of
        Software \<Rightarrow> process_frame_sw enc e frame p g
      | Mjpeg \<Rightarrow> process_frame_mjpeg e frame p g)"

text \<open>
  The body of the capture loop, entered after the test of the stop flag, with every
  lock call returning. The result is \<open>None\<close> where the source is undefined (no camera
  context, or \<^verbatim>\<open>process_frame\<close> undefined); otherwise the first component tells
  whether the loop goes on (\<open>False\<close> for the \<^verbatim>\<open>break\<close> after a failed
  \<^verbatim>\<open>queueRequest\<close>).
\<close>

definition loop_body ::
  "variant \<Rightarrow> encoder \<Rightarrow> iter_env \<Rightarrow> plugin \<Rightarrow> globals
     \<Rightarrow> (bool \<times> plugin \<times> globals \<times> event list) option" where
  "loop_body v enc e p g =
     (case ctx p of
        None \<Rightarrow> None
      | Some c \<Rightarrow>
          (case completed_requests c of
             [] \<Rightarrow> Some (True, p, g, [QueueLock, QueueUnlock, Usleep 1000])
           | request # rest \<Rightarrow>
               (case process_frame v enc e (fb request)
                       (p\<lparr>ctx := Some (c\<lparr>completed_requests := rest\<rparr>)\<rparr>) g of
                  None \<Rightarrow> None
                | Some (p', g', evs) \<Rightarrow>
                    Some (requeue_ok e, p', g',
                          [QueueLock, QueueUnlock] @ evs @ [QueueRequest]))))"

text \<open>Counting the calls of one pass.\<close>

definition locks :: "event list \<Rightarrow> nat" where
  "locks evs = length (filter (\<lambda>e. case e of MutexLock _ \<Rightarrow> True | _ \<Rightarrow> False) evs)"



text \<open>The calls of a pass up to the lock of the channel's mutex.\<close>

definition until_lock :: "event list \<Rightarrow> event list" where
  "until_lock evs = takeWhile (\<lambda>e. case e of MutexLock _ \<Rightarrow> False | _ \<Rightarrow> True) evs"

text \<open>
  The loop \<^verbatim>\<open>while (!pglobal->stop)\<close>, run against a script with one entry per
  pass. The stop flag is read at the top of every pass. The callback runs for the
  requests that arrive, then the body; a stop signal of the pass takes effect on the
  flag before the next test. A pass whose lock of \<^verbatim>\<open>queue_mutex\<close> is never granted
  stays in that call; a pass that calls \<^verbatim>\<open>copy_frame\<close> while the channel's mutex is
  never granted stays in \<^verbatim>\<open>pthread_mutex_lock\<close>, before \<^verbatim>\<open>copy_frame\<close> has written
  anything. The result tells how the loop ended (\<open>Blocked\<close>: it did not, the thread
  waits in a lock call; \<open>ScriptEnded\<close>: the script has no further pass) and lists the
  events of every pass made.
\<close>

datatype loop_exit = StopSeen | RequeueFailed | Blocked | Undefined | ScriptEnded

fun worker_loop ::
  "variant \<Rightarrow> encoder \<Rightarrow> iter_env list \<Rightarrow> plugin \<Rightarrow> globals
     \<Rightarrow> loop_exit \<times> plugin \<times> globals \<times> event list list" where
  "worker_loop v enc [] p g =
     (if stop g then (StopSeen, p, g, []) else (ScriptEnded, p, g, []))"
| "worker_loop v enc (e # es) p g =
     (if stop g then (StopSeen, p, g, [])
      else
        let p0 = foldl (\<lambda>q r. requestComplete r q) p (arrivals e)
        in if ctx p0 = None then (Undefined, p0, g, [])
           else if \<not> queue_granted e then (Blocked, p0, g, [[QueueLock]])
           else
             case loop_body v enc e p0 g of
               None \<Rightarrow> (Undefined, p0, g, [])
             | Some (continue, p1, g1, evs) \<Rightarrow>
                 if \<not> db_granted e \<and> locks evs \<noteq> 0
                 then (Blocked, p1, g, [until_lock evs @ [MutexLock (plugin_number p1)]])
                 else
                   let g2 = g1\<lparr>stop := stop g1 \<or> stop_signal e\<rparr>
                   in if \<not> continue then (RequeueFailed, p1, g2, [evs])
                      else (case worker_loop v enc es p1 g2 of
                              (x, p3, g3, tr) \<Rightarrow> (x, p3, g3, evs # tr)))"

subsection \<open>The camera: \<^verbatim>\<open>init_camera\<close>, \<^verbatim>\<open>start_camera\<close>, \<^verbatim>\<open>stop_camera\<close>\<close>

text \<open>
  The camera library is a collaborator. A \<open>camera_env\<close> gives the outcome of each of
  its calls that the plugin tests, in the order of the source: the start of the camera
  manager, the number of cameras, \<^verbatim>\<open>get\<close>, \<^verbatim>\<open>acquire\<close>,
  \<^verbatim>\<open>generateConfiguration\<close>, \<^verbatim>\<open>validate\<close>, \<^verbatim>\<open>configure\<close>, the allocation of the
  buffers, for every buffer whether \<^verbatim>\<open>createRequest\<close> and \<^verbatim>\<open>addBuffer\<close> succeed, the
  start of the camera, and whether every \<^verbatim>\<open>queueRequest\<close> of \<^verbatim>\<open>start_camera\<close>
  succeeds.
\<close>

datatype validation = Invalid | Valid | Adjusted int int

record camera_env =
  cm_start_ok :: bool
  n_cameras :: nat
  get_ok :: bool
  acquire_ok :: bool
  generate_ok :: bool
  validated :: validation
  configure_ok :: bool
  allocate_ok :: bool
  buffer_requests :: "(bool \<times> bool) list"
  camera_start_ok :: bool
  queue_all_ok :: bool

text \<open>
  The loop of \<^verbatim>\<open>init_camera\<close> over the allocated buffers. The result is the status
  with which \<^verbatim>\<open>init_camera\<close> goes on or returns; it is \<open>None\<close> where
  \<^verbatim>\<open>1000000 / fps\<close> divides by zero.
\<close>

fun make_requests :: "int \<Rightarrow> (bool \<times> bool) list \<Rightarrow> int option" where
  "make_requests f [] = Some 0"
| "make_requests f ((created, added) # rest) =
     (if \<not> created then Some (- 1)
      else if \<not> added then Some (- 1)
      else if f = 0 then None
      else make_requests f rest)"

text \<open>
  \<^verbatim>\<open>init_camera()\<close>. The context is created first, so every return leaves one. The
  result is \<open>None\<close> where the source is undefined: \<^verbatim>\<open>cameras[camera_id]\<close> with a
  negative \<^verbatim>\<open>camera_id\<close>, and the division by a zero \<^verbatim>\<open>fps\<close>. An adjusted
  configuration is stored in \<^verbatim>\<open>width\<close> and \<^verbatim>\<open>height\<close> before the later calls, and
  stays there when one of them fails.
\<close>

definition init_camera :: "camera_env \<Rightarrow> plugin \<Rightarrow> (int \<times> plugin) option" where
  "init_camera env p =
     (let c0 = \<lparr>completed_requests = [], running = False, camera = False\<rparr>;
          p0 = p\<lparr>ctx := Some c0\<rparr>
      in if \<not> cm_start_ok env then Some (- 1, p0)
         else if n_cameras env = 0 then Some (- 1, p0)
         else if camera_id p \<ge> int (n_cameras env) then Some (- 1, p0)
         else if camera_id p < 0 then None
         else if \<not> get_ok env then Some (- 1, p0)
         else
           let p1 = p\<lparr>ctx := Some (c0\<lparr>camera := True\<rparr>)\<rparr>
           in if \<not> acquire_ok env then Some (- 1, p1)
              else if \<not> generate_ok env then Some (- 1, p1)
              else
                (case validated env of
                   Invalid \<Rightarrow> Some (- 1, p1)
                 | _ \<Rightarrow>
                     let p2 = (case validated env of
                                 Adjusted w h \<Rightarrow> p1\<lparr>width := w, height := h\<rparr>
                               | _ \<Rightarrow> p1)
                     in if \<not> configure_ok env then Some (- 1, p2)
                        else if \<not> allocate_ok env then Some (- 1, p2)
                        else (case make_requests (fps p2) (buffer_requests env) of
                                None \<Rightarrow> None
                              | Some r \<Rightarrow> Some (r, p2))))"

text \<open>\<^verbatim>\<open>start_camera()\<close>: \<^verbatim>\<open>running\<close> is set only when every call succeeded.\<close>

definition start_camera :: "camera_env \<Rightarrow> plugin \<Rightarrow> int \<times> plugin" where
  "start_camera env p =
     (case ctx p of
        None \<Rightarrow> (- 1, p)
      | Some c \<Rightarrow>
          if \<not> camera c then (- 1, p)
          else if \<not> camera_start_ok env then (- 1, p)
          else if \<not> queue_all_ok env then (- 1, p)
          else (0, p\<lparr>ctx := Some (c\<lparr>running := True\<rparr>)\<rparr>))"

text \<open>
  \<^verbatim>\<open>stop_camera()\<close>: nothing without a context or without a camera; otherwise the
  camera is stopped if it runs, and the context is deleted.
\<close>

definition stop_camera :: "plugin \<Rightarrow> plugin \<times> event list" where
  "stop_camera p =
     (case ctx p of
        None \<Rightarrow> (p, [])
      | Some c \<Rightarrow>
          if \<not> camera c then (p, [])
          else (p\<lparr>ctx := None\<rparr>, if running c then [CameraStop] else []))"

text \<open>
  \<^verbatim>\<open>worker_thread\<close>: \<^verbatim>\<open>init_camera\<close>, \<^verbatim>\<open>start_camera\<close>, the loop, and
  \<^verbatim>\<open>stop_camera\<close> once the loop has ended. The result is \<open>None\<close> where
  \<^verbatim>\<open>init_camera\<close> is undefined; its first component is \<open>None\<close> when the thread
  returns before the loop.
\<close>

definition worker_thread ::
  "variant \<Rightarrow> encoder \<Rightarrow> camera_env \<Rightarrow> iter_env list \<Rightarrow> plugin \<Rightarrow> globals
     \<Rightarrow> (loop_exit option \<times> plugin \<times> globals \<times> event list) option" where
  "worker_thread v enc env script p g =
     (case init_camera env p of
        None \<Rightarrow> None
      | Some (r, p1) \<Rightarrow>
          if r < 0 then Some (None, p1, g, [])
          else
            (case start_camera env p1 of
               (r', p2) \<Rightarrow>
                 if r' < 0
                 then (case stop_camera p2 of (p3, evs) \<Rightarrow> Some (None, p3, g, evs))
                 else
                   (case worker_loop v enc script p2 g of
                      (x, p3, g3, tr) \<Rightarrow>
                        if x = StopSeen \<or> x = RequeueFailed
                        then (case stop_camera p3 of
                                (p4, evs) \<Rightarrow> Some (Some x, p4, g3, concat tr @ evs))
                        else Some (Some x, p3, g3, concat tr))))"

subsection \<open>Steps of the plugin\<close>

text \<open>
  One step of the plugin on the pair of its statics and the process-wide state: a call
  of one of the four entry points, or a step of the worker thread, which is a call of
  \<^verbatim>\<open>init_camera\<close>, a call of \<^verbatim>\<open>start_camera\<close>, one run of the body of the loop
  (whatever the flag is when it runs), or a call of \<^verbatim>\<open>stop_camera\<close>; or a run of the
  completion callback on the camera's thread. Sequences of steps cover every order in
  which the entry points, the worker and the callback can take turns.
\<close>

inductive plugin_step ::
  "variant \<Rightarrow> encoder \<Rightarrow> plugin \<times> globals \<Rightarrow> plugin \<times> globals \<Rightarrow> bool"
  for v :: variant and enc :: encoder where
    step_init: "input_init v argv ident p = Some (r, p') \<Longrightarrow> plugin_step v enc (p, g) (p', g)"
  | step_run: "input_run created ident p g = (p', g', r, evs) \<Longrightarrow> plugin_step v enc (p, g) (p', g')"
  | step_stop: "input_stop ident p g = (g', r, evs) \<Longrightarrow> plugin_step v enc (p, g) (p, g')"
  | step_cmd: "input_cmd a b c d s = r \<Longrightarrow> plugin_step v enc (p, g) (p, g)"
  | step_init_camera: "init_camera env p = Some (r, p') \<Longrightarrow> plugin_step v enc (p, g) (p', g)"
  | step_start_camera: "start_camera env p = (r, p') \<Longrightarrow> plugin_step v enc (p, g) (p', g)"
  | step_callback: "plugin_step v enc (p, g) (requestComplete request p, g)"
  | step_pass: "loop_body v enc e p g = Some (continue, p', g', evs)
                 \<Longrightarrow> plugin_step v enc (p, g) (p', g')"
  | step_exit: "stop_camera p = (p', evs) \<Longrightarrow> plugin_step v enc (p, g) (p', g)"








subsection \<open>Example states\<close>

definition t0 :: timeval where
  "t0 = \<lparr>tv_sec = 100, tv_usec = 0\<rparr>"

definition t1 :: timeval where
  "t1 = \<lparr>tv_sec = 100, tv_usec = 33000\<rparr>"

definition ch_frame :: input where
  "ch_frame = \<lparr>buf = Some [1, 2], size_in = 2, timestamp = t0, sequence = 7, alive = True\<rparr>"

definition ch_empty :: input where
  "ch_empty = \<lparr>buf = None, size_in = 0, timestamp = t0, sequence = 0, alive = True\<rparr>"

definition ch_dead :: input where
  "ch_dead = \<lparr>buf = Some [1, 2], size_in = 2, timestamp = t0, sequence = 7, alive = False\<rparr>"

definition g_demo :: globals where
  "g_demo = \<lparr>stop = False, inp = [ch_frame, ch_empty]\<rparr>"

text \<open>The process-wide state after \<^verbatim>\<open>input_run\<close> on channel 0 of \<open>g_demo\<close>.\<close>

definition g_run :: globals where
  "g_run = \<lparr>stop = False, inp = [ch_frame\<lparr>buf := None, size_in := 0\<rparr>, ch_empty]\<rparr>"

definition g_dead :: globals where
  "g_dead = \<lparr>stop = False, inp = [ch_dead, ch_empty]\<rparr>"

text \<open>A stand-in for the compressor: the scan lines it was given, one after the other.\<close>

definition demo_encoder :: encoder where
  "demo_encoder w h q rows = concat rows"

text \<open>
  A worker with its camera running, and a script of two passes: in the first a frame
  of three bytes arrives, in the second nothing arrives and another thread sets the
  stop flag.
\<close>

definition req_demo :: Request where
  "req_demo = \<lparr>cancelled = False, fb = \<lparr>planes = [Some [3, 4, 5]], bytesused = 3\<rparr>\<rparr>"

definition e_frame :: iter_env where
  "e_frame = \<lparr>arrivals = [req_demo], frame_alloc = True, line_block = None, clock = t1,
              requeue_ok = True, stop_signal = False, queue_granted = True,
              db_granted = True\<rparr>"




text \<open>A camera for which every call succeeds.\<close>

definition cam_ok :: camera_env where
  "cam_ok = \<lparr>cm_start_ok = True, n_cameras = 1, get_ok = True, acquire_ok = True,
             generate_ok = True, validated = Valid, configure_ok = True, allocate_ok = True,
             buffer_requests = [(True, True)], camera_start_ok = True, queue_all_ok = True\<rparr>"


definition p_cam :: plugin where
  "p_cam = \<lparr>plugin_number = 0, worker = Some 1, width = 640, height = 480, fps = 30,
            quality = 85, camera_id = 0,
            ctx = Some \<lparr>completed_requests = [], running = True, camera = True\<rparr>,
            first_run = True, frame_num = 0\<rparr>"

text \<open>An RGB image of two rows of two pixels, and a pass that receives it.\<close>

definition img_demo :: "byte list" where
  "img_demo = [1, 2, 3, 4, 5, 6, 7, 8, 9, 10, 11, 12]"

definition frame_sw :: FrameBuffer where
  "frame_sw = \<lparr>planes = [Some img_demo], bytesused = 12\<rparr>"

definition e_sw :: iter_env where
  "e_sw = \<lparr>arrivals = [], frame_alloc = True, line_block = Some (\<lambda>i. 0), clock = t1,
           requeue_ok = True, stop_signal = False, queue_granted = True, db_granted = True\<rparr>"

definition p_sw :: plugin where
  "p_sw = \<lparr>plugin_number = 0, worker = Some 1, width = 2, height = 2, fps = 30,
           quality = 85, camera_id = 0,
           ctx = Some \<lparr>completed_requests = [], running = True, camera = True\<rparr>,
           first_run = True, frame_num = 0\<rparr>"

definition p_demo :: plugin where
  "p_demo = \<lparr>plugin_number = 0, worker = None, width = 640, height = 480, fps = 30,
             quality = 85, camera_id = 0, ctx = None, first_run = True, frame_num = 0\<rparr>"

section \<open>Properties\<close>

subsection \<open>The effect of \<^verbatim>\<open>copy_frame\<close>\<close>

lemma copy_frame_stop: "stop (fst (copy_frame ok now b n p g)) = stop g"
  by (simp add: copy_frame_def Let_def)

lemma copy_frame_length: "length (inp (fst (copy_frame ok now b n p g))) = length (inp g)"
  by (simp add: copy_frame_def Let_def)

lemma copy_frame_other:
  "j \<noteq> plugin_number p \<Longrightarrow> inp (fst (copy_frame ok now b n p g)) ! j = inp g ! j"
  by (simp add: copy_frame_def Let_def)

lemma copy_frame_self:
  "plugin_number p < length (inp g) \<Longrightarrow>
   inp (fst (copy_frame ok now b n p g)) ! plugin_number p =
     (if ok then (inp g ! plugin_number p)\<lparr>buf := Some (take n b), size_in := n, timestamp := now\<rparr>
      else (inp g ! plugin_number p)\<lparr>buf := None\<rparr>)"
  by (simp add: copy_frame_def Let_def)

lemma copy_frame_events:
  "snd (copy_frame ok now b n p g) =
     [MutexLock (plugin_number p)]
     @ (if buf (inp g ! plugin_number p) \<noteq> None then [FreeBuf (plugin_number p)] else [])
     @ (if ok then [CondBroadcast (plugin_number p)] else [])
     @ [MutexUnlock (plugin_number p)]"
  by (simp add: copy_frame_def Let_def)

subsection \<open>Publishing and the frame store\<close>

text \<open>
  Claim C1, as amended. After \<^verbatim>\<open>copy_frame\<close> on a buffer that holds at least \<open>len\<close>
  bytes, a successful allocation leaves in the store exactly the published bytes, with
  the size field equal to their number. A failed allocation leaves the buffer pointer
  null. In both cases the previous buffer, if there was one, is released by the one
  \<^verbatim>\<open>free\<close> that precedes the allocation, under the lock of the channel: the previous
  frame is not kept.
\<close>

theorem copy_frame_store:
  assumes "plugin_number p < length (inp g)" and "len \<le> length buffer"
  shows "buf (inp (fst (copy_frame True now buffer len p g)) ! plugin_number p)
           = Some (take len buffer)
       \<and> size_in (inp (fst (copy_frame True now buffer len p g)) ! plugin_number p)
           = length (take len buffer)
       \<and> size_in (inp (fst (copy_frame True now buffer len p g)) ! plugin_number p) = len
       \<and> snd (copy_frame True now buffer len p g)
           = [MutexLock (plugin_number p)]
             @ (if buf (inp g ! plugin_number p) = None then [] else [FreeBuf (plugin_number p)])
             @ [CondBroadcast (plugin_number p), MutexUnlock (plugin_number p)]
       \<and> buf (inp (fst (copy_frame False now buffer len p g)) ! plugin_number p) = None
       \<and> snd (copy_frame False now buffer len p g)
           = [MutexLock (plugin_number p)]
             @ (if buf (inp g ! plugin_number p) = None then [] else [FreeBuf (plugin_number p)])
             @ [MutexUnlock (plugin_number p)]"
  using assms by (simp add: copy_frame_self copy_frame_events)

theorem copy_frame_store_witness:
  "plugin_number p_demo < length (inp g_demo) \<and> (3::nat) \<le> length [3, 4, 5 :: byte]
   \<and> buf (inp (fst (copy_frame True t1 [3, 4, 5] 3 p_demo g_demo)) ! plugin_number p_demo)
       = Some [3, 4, 5]
   \<and> size_in (inp (fst (copy_frame True t1 [3, 4, 5] 3 p_demo g_demo)) ! plugin_number p_demo) = 3
   \<and> snd (copy_frame True t1 [3, 4, 5] 3 p_demo g_demo)
       = [MutexLock 0, FreeBuf 0, CondBroadcast 0, MutexUnlock 0]
   \<and> buf (inp (fst (copy_frame False t1 [3, 4, 5] 3 p_demo g_demo)) ! plugin_number p_demo) = None
   \<and> snd (copy_frame False t1 [3, 4, 5] 3 p_demo g_demo)
       = [MutexLock 0, FreeBuf 0, MutexUnlock 0]"
  using copy_frame_store [of p_demo g_demo 3 "[3, 4, 5]" t1]
  by (simp add: p_demo_def g_demo_def ch_frame_def)

text \<open>
  Claim C1 as stated fails: channel 0 holds the frame \<open>[1, 2]\<close> of size 2; a publish of
  \<open>[3, 4, 5]\<close> whose allocation fails leaves the pointer null and the size 2, which is
  neither the state before the call nor the new frame.
\<close>

theorem copy_frame_alloc_failure_counterexample:
  "buf (inp g_demo ! 0) = Some [1, 2]
   \<and> size_in (inp g_demo ! 0) = 2
   \<and> buf (inp (fst (copy_frame False t1 [3, 4, 5] 3 p_demo g_demo)) ! 0) = None
   \<and> size_in (inp (fst (copy_frame False t1 [3, 4, 5] 3 p_demo g_demo)) ! 0) = 2
   \<and> fst (copy_frame False t1 [3, 4, 5] 3 p_demo g_demo) \<noteq> g_demo"
  by (simp add: copy_frame_def p_demo_def g_demo_def ch_frame_def ch_empty_def)

text \<open>
  Claim C2, as amended. \<^verbatim>\<open>copy_frame\<close> keeps no sequence number: a publish leaves
  the sequence number of every channel as it was.
\<close>

theorem copy_frame_sequence_unchanged:
  assumes "plugin_number p < length (inp g)"
  shows "map sequence (inp (fst (copy_frame ok now buffer len p g))) = map sequence (inp g)"
  using assms by (simp add: copy_frame_def Let_def map_update list_update_same_conv)

theorem copy_frame_sequence_unchanged_witness:
  "plugin_number p_demo < length (inp g_demo)
   \<and> map sequence (inp (fst (copy_frame True t1 [3, 4, 5] 3 p_demo g_demo))) = [7, 0]"
  using copy_frame_sequence_unchanged [of p_demo g_demo True t1 "[3, 4, 5]" 3]
  by (simp add: p_demo_def g_demo_def ch_frame_def ch_empty_def)

text \<open>
  Claim C2 as stated fails: channel 0 has sequence number 7; after a successful publish
  the new frame is in the store and the sequence number is not 8.
\<close>

theorem copy_frame_sequence_counterexample:
  "sequence (inp g_demo ! 0) = 7
   \<and> buf (inp (fst (copy_frame True t1 [3, 4, 5] 3 p_demo g_demo)) ! 0) = Some [3, 4, 5]
   \<and> sequence (inp (fst (copy_frame True t1 [3, 4, 5] 3 p_demo g_demo)) ! 0)
       \<noteq> sequence (inp g_demo ! 0) + 1"
  by (simp add: copy_frame_def p_demo_def g_demo_def ch_frame_def ch_empty_def)

text \<open>
  Claim C4, as amended. \<^verbatim>\<open>copy_frame\<close> does not consult the liveness flag: with
  the flag of its channel set to any value \<open>b\<close>, it makes the same calls and leaves the
  same channel, the flag itself still \<open>b\<close>.
\<close>

theorem copy_frame_ignores_liveness:
  assumes "plugin_number p < length (inp g)"
  shows "snd (copy_frame ok now buffer len p
                (g\<lparr>inp := (inp g)[plugin_number p := (inp g ! plugin_number p)\<lparr>alive := b\<rparr>]\<rparr>))
           = snd (copy_frame ok now buffer len p g)
       \<and> inp (fst (copy_frame ok now buffer len p
                (g\<lparr>inp := (inp g)[plugin_number p := (inp g ! plugin_number p)\<lparr>alive := b\<rparr>]\<rparr>)))
             ! plugin_number p
           = (inp (fst (copy_frame ok now buffer len p g)) ! plugin_number p)\<lparr>alive := b\<rparr>"
  using assms by (simp add: copy_frame_def Let_def)

theorem copy_frame_ignores_liveness_witness:
  "plugin_number p_demo < length (inp g_demo)
   \<and> snd (copy_frame True t1 [3, 4, 5] 3 p_demo g_dead)
       = snd (copy_frame True t1 [3, 4, 5] 3 p_demo g_demo)
   \<and> inp (fst (copy_frame True t1 [3, 4, 5] 3 p_demo g_dead)) ! 0
       = (inp (fst (copy_frame True t1 [3, 4, 5] 3 p_demo g_demo)) ! 0)\<lparr>alive := False\<rparr>"
  using copy_frame_ignores_liveness [of p_demo g_demo True t1 "[3, 4, 5]" 3 False]
  by (simp add: p_demo_def g_demo_def g_dead_def ch_frame_def ch_dead_def ch_empty_def)

text \<open>
  Claim C4 as stated fails: channel 0 is not alive and holds \<open>[1, 2]\<close>; the publish
  replaces the frame and wakes the waiters all the same.
\<close>

theorem copy_frame_dead_channel_counterexample:
  "\<not> alive (inp g_dead ! 0)
   \<and> buf (inp g_dead ! 0) = Some [1, 2]
   \<and> buf (inp (fst (copy_frame True t1 [3, 4, 5] 3 p_demo g_dead)) ! 0) = Some [3, 4, 5]
   \<and> snd (copy_frame True t1 [3, 4, 5] 3 p_demo g_dead)
       = [MutexLock 0, FreeBuf 0, CondBroadcast 0, MutexUnlock 0]"
  by (simp add: copy_frame_def p_demo_def g_dead_def ch_dead_def ch_empty_def)

text \<open>
  Claim C8. A publish by the plugin bound to channel \<open>plugin_number p\<close> leaves the stop
  flag, the number of channels and every other channel unchanged; the state after it is
  the state before with only the buffer, the size and the timestamp of that one channel
  replaced; and the only mutex it locks or unlocks is that channel's.
\<close>

theorem copy_frame_frame_condition:
  assumes "plugin_number p < length (inp g)"
  shows "stop (fst (copy_frame ok now buffer len p g)) = stop g
       \<and> length (inp (fst (copy_frame ok now buffer len p g))) = length (inp g)
       \<and> (\<forall>j. j \<noteq> plugin_number p \<longrightarrow> inp (fst (copy_frame ok now buffer len p g)) ! j = inp g ! j)
       \<and> (\<exists>b s t. fst (copy_frame ok now buffer len p g)
             = g\<lparr>inp := (inp g)[plugin_number p :=
                     (inp g ! plugin_number p)\<lparr>buf := b, size_in := s, timestamp := t\<rparr>]\<rparr>)
       \<and> (\<forall>j. MutexLock j \<in> set (snd (copy_frame ok now buffer len p g)) \<longrightarrow> j = plugin_number p)
       \<and> (\<forall>j. MutexUnlock j \<in> set (snd (copy_frame ok now buffer len p g)) \<longrightarrow> j = plugin_number p)"
proof -
  have ex: "\<exists>b s t. fst (copy_frame ok now buffer len p g)
             = g\<lparr>inp := (inp g)[plugin_number p :=
                     (inp g ! plugin_number p)\<lparr>buf := b, size_in := s, timestamp := t\<rparr>]\<rparr>"
  proof (cases ok)
    case True
    then show ?thesis by (simp add: copy_frame_def Let_def) blast
  next
    case False
    have "fst (copy_frame ok now buffer len p g)
            = g\<lparr>inp := (inp g)[plugin_number p := (inp g ! plugin_number p)
                 \<lparr>buf := None, size_in := size_in (inp g ! plugin_number p),
                  timestamp := timestamp (inp g ! plugin_number p)\<rparr>]\<rparr>"
      using False by (simp add: copy_frame_def Let_def)
    then show ?thesis by blast
  qed
  have lk: "\<forall>j. MutexLock j \<in> set (snd (copy_frame ok now buffer len p g)) \<longrightarrow> j = plugin_number p"
    by (simp add: copy_frame_events)
  have ul: "\<forall>j. MutexUnlock j \<in> set (snd (copy_frame ok now buffer len p g)) \<longrightarrow> j = plugin_number p"
    by (simp add: copy_frame_events)
  show ?thesis
    using ex lk ul by (simp add: copy_frame_stop copy_frame_length copy_frame_other)
qed

theorem copy_frame_frame_condition_witness:
  "plugin_number p_demo < length (inp g_demo)
   \<and> stop (fst (copy_frame True t1 [3, 4, 5] 3 p_demo g_demo)) = stop g_demo
   \<and> inp (fst (copy_frame True t1 [3, 4, 5] 3 p_demo g_demo)) ! 1 = ch_empty"
  using copy_frame_frame_condition [of p_demo g_demo True t1 "[3, 4, 5]" 3]
  by (simp add: p_demo_def g_demo_def)

subsection \<open>The command entry point\<close>

text \<open>
  Claim C5, as amended. \<^verbatim>\<open>input_cmd\<close> returns 0, the status for success, whatever
  the plugin number, control identifier, group and value are.
\<close>

theorem input_cmd_returns_zero:
  "input_cmd pl cid grp val vs = 0 \<and> status_ok (input_cmd pl cid grp val vs)"
  by (simp add: input_cmd_def status_ok_def)

text \<open>
  Claim C5 as stated fails: for control 1 of group 2 with value 3 the returned status
  is the one for success, not one that signals an unsupported control.
\<close>

theorem input_cmd_status_counterexample:
  "status_ok (input_cmd 0 1 2 3 None)"
  by (simp add: input_cmd_def status_ok_def)

subsection \<open>Stopping the plugin\<close>

lemma input_stop_result:
  "input_stop ident p g
     = (g\<lparr>stop := True\<rparr>, 0, if stop g then [] else [ThreadJoin (worker p)])"
  by (cases g) (simp add: input_stop_def)

text \<open>
  Claim C3, as amended. After every \<^verbatim>\<open>input_run\<close>, which returns 0 exactly when it
  started the worker thread, a call of \<^verbatim>\<open>input_stop\<close> in any later process-wide state
  returns 0 and leaves the stop flag set, with nothing else of that state changed. When
  the flag is already set on entry it returns at once: it makes no call at all, so it
  does not wait for the worker and does not touch the worker's handle, whether the
  activation had started the worker or not.
\<close>

theorem input_stop_after_run:
  assumes "input_run created ident p g = (p1, g1, r, evs)"
  shows "(r = 0 \<longleftrightarrow> created \<noteq> None)
       \<and> fst (snd (input_stop ident p1 g2)) = 0
       \<and> fst (input_stop ident p1 g2) = g2\<lparr>stop := True\<rparr>
       \<and> (stop g2 \<longrightarrow> input_stop ident p1 g2 = (g2, 0, []))"
proof -
  from assms have "r = 0 \<longleftrightarrow> created \<noteq> None"
    by (auto simp: input_run_def Let_def split: option.splits prod.splits)
  moreover have "input_stop ident p1 g2
          = (g2\<lparr>stop := True\<rparr>, 0, if stop g2 then [] else [ThreadJoin (worker p1)])"
    by (rule input_stop_result)
  moreover have "stop g2 \<longrightarrow> input_stop ident p1 g2 = (g2, 0, [])"
    by (simp add: input_stop_def)
  ultimately show ?thesis by simp
qed

theorem input_stop_after_run_witness:
  "input_run None 0 p_demo g_demo
     = (p_demo\<lparr>first_run := False\<rparr>,
        g_demo\<lparr>inp := [ch_frame\<lparr>buf := None, size_in := 0\<rparr>, ch_empty]\<rparr>,
        - 1, [ThreadCreate])
   \<and> stop (g_demo\<lparr>stop := True\<rparr>)
   \<and> input_stop 0 (p_demo\<lparr>first_run := False\<rparr>) (g_demo\<lparr>stop := True\<rparr>)
       = (g_demo\<lparr>stop := True\<rparr>, 0, [])"
proof -
  have run: "input_run None 0 p_demo g_demo
     = (p_demo\<lparr>first_run := False\<rparr>,
        g_demo\<lparr>inp := [ch_frame\<lparr>buf := None, size_in := 0\<rparr>, ch_empty]\<rparr>,
        - 1, [ThreadCreate])"
    by (simp add: input_run_def worker_cleanup_def g_demo_def p_demo_def)
  from run input_stop_after_run [OF run, of "g_demo\<lparr>stop := True\<rparr>"] show ?thesis
    by simp
qed

text \<open>
  Claim C3 as stated fails: \<^verbatim>\<open>input_run\<close> starts the worker and returns 0; the
  shutdown sequence then sets the stop flag; the call of \<^verbatim>\<open>input_stop\<close> that
  follows returns 0 without a join.
\<close>

theorem input_stop_no_join_counterexample:
  "fst (snd (snd (input_run (Some 1) 0 p_demo g_demo))) = 0
   \<and> worker (fst (input_run (Some 1) 0 p_demo g_demo)) = Some 1
   \<and> input_stop 0 (fst (input_run (Some 1) 0 p_demo g_demo))
        ((fst (snd (input_run (Some 1) 0 p_demo g_demo)))\<lparr>stop := True\<rparr>)
       = ((fst (snd (input_run (Some 1) 0 p_demo g_demo)))\<lparr>stop := True\<rparr>, 0, [])"
  by (simp add: input_run_def input_stop_def p_demo_def g_demo_def)

text \<open>
  Two further facts about the join, for the record. With the flag
  not set on entry, \<^verbatim>\<open>input_stop\<close> calls \<^verbatim>\<open>pthread_join\<close> on the handle that
  \<^verbatim>\<open>input_run\<close> has passed to \<^verbatim>\<open>pthread_detach\<close>, and, after an \<^verbatim>\<open>input_run\<close> that
  could not create the thread, on a handle that was never assigned.
\<close>

lemma input_stop_joins_detached:
  assumes "input_run (Some t) ident p g = (p1, g1, r, evs)" and "\<not> stop g2"
  shows "ThreadDetach (Some t) \<in> set evs \<and> snd (snd (input_stop ident p1 g2)) = [ThreadJoin (Some t)]"
  using assms by (auto simp: input_run_def input_stop_def Let_def)

lemma input_stop_joins_unassigned:
  assumes "input_run None ident p g = (p1, g1, r, evs)" and "\<not> stop g2" and "worker p = None"
  shows "snd (snd (input_stop ident p1 g2)) = [ThreadJoin None]"
  using assms
  by (auto simp: input_run_def input_stop_def worker_cleanup_def Let_def
           split: if_splits prod.splits)

subsection \<open>The stop flag\<close>

lemma copy_frame_stop': "copy_frame ok now b n p g = (g', evs) \<Longrightarrow> stop g' = stop g"
  using copy_frame_stop [of ok now b n p g] by simp

lemma process_frame_stop:
  "process_frame v enc e frame p g = Some (p', g', evs) \<Longrightarrow> stop g' = stop g"
  by (auto simp: process_frame_def process_frame_sw_def process_frame_mjpeg_def Let_def
           dest: copy_frame_stop'
           split: variant.splits if_splits option.splits prod.splits list.splits)

lemma loop_body_stop:
  "loop_body v enc e p g = Some (c, p', g', evs) \<Longrightarrow> stop g' = stop g"
  by (auto simp: loop_body_def dest: process_frame_stop
           split: option.splits list.splits prod.splits)

lemma worker_cleanup_stop:
  "worker_cleanup p g = (p', g', evs) \<Longrightarrow> stop g' = stop g"
  by (auto simp: worker_cleanup_def Let_def split: if_splits)

lemma input_run_stop:
  "input_run created ident p g = (p', g', r, evs) \<Longrightarrow> stop g' = stop g"
  by (auto simp: input_run_def Let_def dest!: worker_cleanup_stop
           split: option.splits prod.splits)

lemma input_stop_sets: "input_stop ident p g = (g', r, evs) \<Longrightarrow> stop g'"
  by (auto simp: input_stop_def split: if_splits)

lemma worker_thread_stop:
  assumes "stop g" and "worker_thread v enc env script p g = Some (x, p', g', evs)"
  shows "g' = g"
proof -
  have loop: "worker_loop v enc script q g = (StopSeen, q, g, [])" for q
    using assms(1) by (cases script) simp_all
  from assms(2) show ?thesis
    by (auto simp: worker_thread_def Let_def loop split: option.splits if_splits prod.splits)
qed

lemma plugin_step_stop:
  "plugin_step v enc s s' \<Longrightarrow> stop (snd s) \<Longrightarrow> stop (snd s')"
  by (induction rule: plugin_step.induct)
     (auto dest: input_run_stop input_stop_sets loop_body_stop)

text \<open>
  Claim C6. No step of the plugin clears the stop flag: if the flag is set in a state,
  it is set in every state reached from it by any sequence of calls of
  \<^verbatim>\<open>input_init\<close>, \<^verbatim>\<open>input_run\<close>, \<^verbatim>\<open>input_stop\<close>, \<^verbatim>\<open>input_cmd\<close> and of steps
  of the worker thread, from \<^verbatim>\<open>init_camera\<close> and \<^verbatim>\<open>start_camera\<close> through the passes
  of its loop to \<^verbatim>\<open>stop_camera\<close>. (\<^verbatim>\<open>input_stop\<close> sets it: lemma \<open>input_stop_sets\<close>.)
\<close>

theorem stop_flag_monotone:
  assumes "rtranclp (plugin_step v enc) s s'" and "stop (snd s)"
  shows "stop (snd s')"
  using assms by (induction rule: rtranclp_induct) (auto dest: plugin_step_stop)

text \<open>
  The witness: \<^verbatim>\<open>input_run\<close> starts the worker and \<^verbatim>\<open>input_stop\<close> sets the flag;
  from that state the worker goes through \<^verbatim>\<open>init_camera\<close> and \<^verbatim>\<open>start_camera\<close>, a
  request arrives, and a pass of the loop publishes its frame.
\<close>

theorem stop_flag_monotone_witness:
  "rtranclp (plugin_step Mjpeg demo_encoder)
      (p_demo, g_demo) (p_demo\<lparr>worker := Some 1\<rparr>, g_run\<lparr>stop := True\<rparr>)
   \<and> rtranclp (plugin_step Mjpeg demo_encoder)
      (p_demo\<lparr>worker := Some 1\<rparr>, g_run\<lparr>stop := True\<rparr>)
      (p_cam, fst (copy_frame True t1 [3, 4, 5] 3 p_cam (g_run\<lparr>stop := True\<rparr>)))
   \<and> stop (snd (p_demo\<lparr>worker := Some 1\<rparr>, g_run\<lparr>stop := True\<rparr>))
   \<and> stop (fst (copy_frame True t1 [3, 4, 5] 3 p_cam (g_run\<lparr>stop := True\<rparr>)))
   \<and> buf (inp (fst (copy_frame True t1 [3, 4, 5] 3 p_cam (g_run\<lparr>stop := True\<rparr>))) ! 0)
       = Some [3, 4, 5]"
proof -
  let ?g = "g_run\<lparr>stop := True\<rparr>"
  let ?p0 = "p_demo\<lparr>worker := Some 1\<rparr>"
  let ?p1 = "?p0\<lparr>ctx := Some \<lparr>completed_requests = [], running = False, camera = True\<rparr>\<rparr>"
  let ?p3 = "p_cam\<lparr>ctx := Some \<lparr>completed_requests = [req_demo], running = True, camera = True\<rparr>\<rparr>"
  let ?g4 = "fst (copy_frame True t1 [3, 4, 5] 3 p_cam ?g)"
  have "input_run (Some 1) 0 p_demo g_demo = (?p0, g_run, 0, [ThreadCreate, ThreadDetach (Some 1)])"
    by (simp add: input_run_def g_demo_def g_run_def)
  then have a1: "plugin_step Mjpeg demo_encoder (p_demo, g_demo) (?p0, g_run)"
    by (rule step_run)
  have "input_stop 0 ?p0 g_run = (?g, 0, [ThreadJoin (worker ?p0)])"
    by (simp add: input_stop_def g_run_def)
  then have a2: "plugin_step Mjpeg demo_encoder (?p0, g_run) (?p0, ?g)"
    by (rule step_stop)
  have before: "rtranclp (plugin_step Mjpeg demo_encoder) (p_demo, g_demo) (?p0, ?g)"
    using a1 a2 by (meson rtranclp.rtrancl_into_rtrancl rtranclp.rtrancl_refl)
  have "init_camera cam_ok ?p0 = Some (0, ?p1)"
    by (simp add: init_camera_def cam_ok_def p_demo_def Let_def)
  then have s1: "plugin_step Mjpeg demo_encoder (?p0, ?g) (?p1, ?g)"
    by (rule step_init_camera)
  have "start_camera cam_ok ?p1 = (0, p_cam)"
    by (simp add: start_camera_def cam_ok_def p_demo_def p_cam_def)
  then have s2: "plugin_step Mjpeg demo_encoder (?p1, ?g) (p_cam, ?g)"
    by (rule step_start_camera)
  have "requestComplete req_demo p_cam = ?p3"
    by (simp add: requestComplete_def p_cam_def req_demo_def)
  then have s3: "plugin_step Mjpeg demo_encoder (p_cam, ?g) (?p3, ?g)"
    using step_callback [of Mjpeg demo_encoder p_cam ?g req_demo] by simp
  have "loop_body Mjpeg demo_encoder e_frame ?p3 ?g
          = Some (True, p_cam, ?g4,
                  [QueueLock, QueueUnlock] @ snd (copy_frame True t1 [3, 4, 5] 3 p_cam ?g)
                  @ [QueueRequest])"
    by (simp add: loop_body_def process_frame_def process_frame_mjpeg_def req_demo_def
          e_frame_def p_cam_def copy_frame_def Let_def)
  then have s4: "plugin_step Mjpeg demo_encoder (?p3, ?g) (p_cam, ?g4)"
    by (rule step_pass)
  have rt: "rtranclp (plugin_step Mjpeg demo_encoder) (?p0, ?g) (p_cam, ?g4)"
    using s1 s2 s3 s4 by (meson rtranclp.rtrancl_into_rtrancl rtranclp.rtrancl_refl)
  have s0: "stop (snd (?p0, ?g))"
    by simp
  have b: "buf (inp ?g4 ! 0) = Some [3, 4, 5]"
    by (simp add: copy_frame_def p_cam_def g_run_def)
  show ?thesis
    using before rt s0 stop_flag_monotone [OF rt s0] b by simp
qed

subsection \<open>Cleaning up\<close>

lemma worker_cleanup_done:
  "\<not> first_run p \<Longrightarrow> worker_cleanup_times n p g = (p, g, [])"
  by (induction n) (simp_all add: worker_cleanup_def)

lemma worker_cleanup_first:
  "first_run p \<Longrightarrow> \<not> first_run (fst (worker_cleanup p g))"
  by (simp add: worker_cleanup_def Let_def)

lemma worker_cleanup_buf:
  "first_run p \<Longrightarrow> plugin_number p < length (inp g) \<Longrightarrow>
   buf (inp (fst (snd (worker_cleanup p g))) ! plugin_number p) = None"
  by (simp add: worker_cleanup_def Let_def)

lemma worker_cleanup_frees:
  "frees (snd (snd (worker_cleanup p g)))
     = (if first_run p \<and> buf (inp g ! plugin_number p) \<noteq> None then 1 else 0)"
  by (simp add: worker_cleanup_def Let_def frees_def)

text \<open>
  Claim C10. Starting with the one-shot flag \<^verbatim>\<open>first_run\<close> at its initial value,
  any positive number of calls of \<^verbatim>\<open>worker_cleanup\<close> in a row has the effect of a
  single call, in the state and in the calls made: the buffer pointer of the channel
  is null afterwards, the flag is cleared, and \<^verbatim>\<open>free\<close> is called once if there was a
  buffer and not at all otherwise.
\<close>

theorem worker_cleanup_idempotent:
  assumes "first_run p" and "plugin_number p < length (inp g)"
  shows "worker_cleanup_times (Suc n) p g = worker_cleanup p g
       \<and> buf (inp (fst (snd (worker_cleanup_times (Suc n) p g))) ! plugin_number p) = None
       \<and> \<not> first_run (fst (worker_cleanup_times (Suc n) p g))
       \<and> frees (snd (snd (worker_cleanup_times (Suc n) p g)))
           = (if buf (inp g ! plugin_number p) \<noteq> None then 1 else 0)
       \<and> frees (snd (snd (worker_cleanup_times (Suc n) p g))) \<le> 1"
proof -
  obtain p' g' evs where one: "worker_cleanup p g = (p', g', evs)"
    by (cases "worker_cleanup p g") auto
  have "\<not> first_run p'"
    using worker_cleanup_first [OF assms(1), of g] one by simp
  then have rest: "worker_cleanup_times n p' g' = (p', g', [])"
    by (rule worker_cleanup_done)
  have eq: "worker_cleanup_times (Suc n) p g = worker_cleanup p g"
    using one rest by simp
  show ?thesis
    unfolding eq
    using assms worker_cleanup_buf [OF assms] worker_cleanup_first [OF assms(1), of g]
      worker_cleanup_frees [of p g]
    by simp
qed

theorem worker_cleanup_idempotent_witness:
  "first_run p_demo \<and> plugin_number p_demo < length (inp g_demo)
   \<and> worker_cleanup_times 3 p_demo g_demo = worker_cleanup p_demo g_demo
   \<and> buf (inp (fst (snd (worker_cleanup_times 3 p_demo g_demo))) ! 0) = None
   \<and> frees (snd (snd (worker_cleanup_times 3 p_demo g_demo))) = 1"
  using worker_cleanup_idempotent [of p_demo g_demo 2]
  by (simp add: p_demo_def g_demo_def ch_frame_def worker_cleanup_def frees_def numeral_3_eq_3)

subsection \<open>The capture loop and the stop flag\<close>












lemma loop_body_idle:
  "ctx p = Some c \<Longrightarrow> completed_requests c = [] \<Longrightarrow>
   loop_body v enc e p g = Some (True, p, g, [QueueLock, QueueUnlock, Usleep 1000])"
  by (simp add: loop_body_def)














subsection \<open>Software encoding\<close>

text \<open>
  The inner loop rewrites a stretch of the line buffer with the pixels of the source
  stretch, each with its outer bytes exchanged: the lemma is stated on the lists cut at
  the two offsets, so that the induction can move both cuts by one pixel.
\<close>

lemma length_swap_rb: "length (swap_rb xs) = length xs"
  by (induction xs rule: swap_rb.induct) simp_all

lemma three_elems:
  assumes "length xs = 3 * Suc n"
  obtains a b c xs' where "xs = a # b # c # xs'" and "length xs' = 3 * n"
proof -
  from assms obtain a xs1 where 1: "xs = a # xs1" "length xs1 = Suc (Suc (3 * n))"
    by (cases xs) auto
  then obtain b xs2 where 2: "xs1 = b # xs2" "length xs2 = Suc (3 * n)"
    by (cases xs1) auto
  then obtain c xs3 where 3: "xs2 = c # xs3" "length xs3 = 3 * n"
    by (cases xs2) auto
  from 1 2 3 that show thesis by simp
qed

lemma swap_loop_append:
  "length pre = dst \<Longrightarrow> length mid = 3 * n \<Longrightarrow> length spre = src \<Longrightarrow> length px = 3 * n \<Longrightarrow>
   swap_loop n (spre @ px @ spost) src dst (pre @ mid @ post) = pre @ swap_rb px @ post"
proof (induction n arbitrary: pre mid spre px src dst)
  case 0
  then show ?case by simp
next
  case (Suc n)
  from Suc.prems(4) obtain a b c px' where px: "px = a # b # c # px'" and lpx: "length px' = 3 * n"
    by (rule three_elems)
  from Suc.prems(2) obtain m1 m2 m3 mid' where mid: "mid = m1 # m2 # m3 # mid'"
    and lmid: "length mid' = 3 * n"
    by (rule three_elems)
  define R where "R = spre @ px @ spost"
  define L where "L = pre @ mid @ post"
  have rd: "R ! src = a" "R ! (src + 1) = b" "R ! (src + 2) = c"
    using Suc.prems(3) px by (simp_all add: R_def nth_append)
  have upd: "L[dst := c, dst + 1 := b, dst + 2 := a] = (pre @ [c, b, a]) @ mid' @ post"
    using Suc.prems(1) mid by (simp add: L_def list_update_append)
  have R': "R = (spre @ [a, b, c]) @ px' @ spost"
    using px by (simp add: R_def)
  have "swap_loop (Suc n) R src dst L
          = swap_loop n R (src + 3) (dst + 3)
              (L[dst := R ! (src + 2), dst + 1 := R ! (src + 1), dst + 2 := R ! src])"
    by (simp only: swap_loop.simps)
  also have "\<dots> = swap_loop n R (src + 3) (dst + 3) ((pre @ [c, b, a]) @ mid' @ post)"
    by (simp only: rd upd)
  also have "\<dots> = swap_loop n ((spre @ [a, b, c]) @ px' @ spost) (src + 3) (dst + 3)
                      ((pre @ [c, b, a]) @ mid' @ post)"
    by (subst R') (rule refl)
  also have "\<dots> = (pre @ [c, b, a]) @ swap_rb px' @ post"
    by (rule Suc.IH) (use Suc.prems lmid lpx in simp_all)
  finally show ?case using px by (simp add: R_def L_def)
qed

lemma swap_loop_row:
  assumes "length line = 3 * n" and "src + 3 * n \<le> length rgb"
  shows "swap_loop n rgb src 0 line = swap_rb (take (3 * n) (drop src rgb))"
proof -
  define A where "A = take src rgb"
  define B where "B = take (3 * n) (drop src rgb)"
  define C where "C = drop (3 * n) (drop src rgb)"
  have rgb: "A @ B @ C = rgb"
    by (simp only: A_def B_def C_def append_take_drop_id)
  have lens: "length A = src" "length B = 3 * n"
    using assms(2) by (simp_all add: A_def B_def)
  have "swap_loop n (A @ B @ C) src 0 ([] @ line @ []) = [] @ swap_rb B @ []"
    using _ assms(1) lens by (rule swap_loop_append) simp
  then have "swap_loop n rgb src 0 line = swap_rb B"
    by (simp only: rgb append_Nil append_Nil2)
  then show ?thesis
    by (simp only: B_def)
qed

lemma row_offset:
  assumes "0 \<le> w" and "y * nat w * 3 < 2 ^ 32"
  shows "unat ((word_of_nat y :: 32 word) * word_of_int w * 3) = y * nat w * 3"
proof -
  have e: "(word_of_nat y :: 32 word) * word_of_int w * 3 = word_of_nat (y * nat w * 3)"
    using assms(1) by simp
  have "unat (word_of_nat (y * nat w * 3) :: 32 word) = (y * nat w * 3) mod 2 ^ 32"
    using unat_of_nat [where 'a = 32, of "y * nat w * 3"] by simp
  also have "\<dots> = y * nat w * 3"
    using assms(2) by simp
  finally show ?thesis
    by (simp only: e)
qed

lemma scan_loop_rows:
  assumes "0 \<le> w" and "length line = 3 * nat w"
    and "(y + k) * nat w * 3 < 2 ^ 32" and "(y + k) * (3 * nat w) \<le> length rgb"
  shows "scan_loop k y w rgb line = map (\<lambda>y'. swap_rb (image_row (nat w) rgb y')) [y..<y + k]"
  using assms
proof (induction k arbitrary: y line)
  case 0
  then show ?case by simp
next
  case (Suc k)
  have "y * nat w * 3 \<le> (y + Suc k) * nat w * 3" by (intro mult_le_mono) simp_all
  with Suc.prems(3) have small: "y * nat w * 3 < 2 ^ 32" by linarith
  have off: "unat ((word_of_nat y :: 32 word) * word_of_int w * 3) = y * nat w * 3"
    using Suc.prems(1) small by (rule row_offset)
  have ar: "y * nat w * 3 = y * (3 * nat w)" by simp
  have "y * (3 * nat w) + 3 * nat w \<le> (y + Suc k) * (3 * nat w)"
    by (simp add: algebra_simps)
  with Suc.prems(4) have fits: "y * (3 * nat w) + 3 * nat w \<le> length rgb" by linarith
  have row: "swap_loop (nat w) rgb (y * nat w * 3) 0 line = swap_rb (image_row (nat w) rgb y)"
    unfolding image_row_def ar using Suc.prems(2) fits by (rule swap_loop_row)
  have len: "length (swap_rb (image_row (nat w) rgb y)) = 3 * nat w"
    using fits by (simp add: length_swap_rb image_row_def)
  have rest: "scan_loop k (Suc y) w rgb (swap_rb (image_row (nat w) rgb y))
                = map (\<lambda>y'. swap_rb (image_row (nat w) rgb y')) [Suc y..<Suc y + k]"
    by (rule Suc.IH) (use Suc.prems len in simp_all)
  have upt: "[y..<y + Suc k] = y # [Suc y..<Suc y + k]"
    by (simp add: upt_conv_Cons)
  have "scan_loop (Suc k) y w rgb line
          = swap_rb (image_row (nat w) rgb y)
            # scan_loop k (Suc y) w rgb (swap_rb (image_row (nat w) rgb y))"
    by (simp only: scan_loop.simps Let_def off row)
  then show ?case
    by (simp only: rest upt list.map)
qed

lemma rgb_to_jpeg_result:
  assumes "0 \<le> w" and "0 \<le> h" and "w * 3 < 2 ^ 31" and "h < 2 ^ 31"
    and "w * h * 3 < 2 ^ 32" and "nat (w * h * 3) \<le> length rgb"
  shows "rgb_to_jpeg enc q (Some block) (Some rgb) w h
           = (0, Some (encoded_swapped enc q w h rgb, length (encoded_swapped enc q w h rgb)))"
proof -
  have iw: "unat (word_of_int w :: 32 word) = nat w"
    using assms(1,3) by (simp add: unat_eq_nat_uint uint_word_of_int take_bit_int_eq_self)
  have ih: "unat (word_of_int h :: 32 word) = nat h"
    using assms(2,4) by (simp add: unat_eq_nat_uint uint_word_of_int take_bit_int_eq_self)
  have eq: "nat (w * h * 3) = nat h * nat w * 3"
    using assms(1,2) by (simp add: nat_mult_distrib mult.commute)
  have b1: "(0 + nat h) * nat w * 3 < 2 ^ 32"
  proof -
    have "int (nat h * nat w * 3) = w * h * 3" using assms(1,2) by (simp add: mult.commute)
    with assms(5) have "int (nat h * nat w * 3) < 2 ^ 32" by simp
    then show ?thesis by (simp only: add_0 flip: of_nat_less_iff [where 'a = int]) simp
  qed
  have b2: "(0 + nat h) * (3 * nat w) \<le> length rgb"
    using assms(6) eq by (simp add: mult.commute mult.left_commute)
  have ll: "length (map block [0..<nat (w * 3)]) = 3 * nat w"
    using assms(1) by (simp add: nat_mult_distrib mult.commute)
  have "scan_loop (nat h) 0 w rgb (map block [0..<nat (w * 3)])
          = map (\<lambda>y'. swap_rb (image_row (nat w) rgb y')) [0..<0 + nat h]"
    using assms(1) ll b1 b2 by (rule scan_loop_rows)
  then have "scan_loop (nat h) 0 w rgb (map block [0..<nat (w * 3)]) = swapped_rows (nat w) (nat h) rgb"
    by (simp add: swapped_rows_def)
  then show ?thesis
    by (simp add: rgb_to_jpeg_def Let_def iw ih encoded_swapped_def)
qed


lemma process_frame_sw_result:
  assumes "0 \<le> width p" and "0 \<le> height p" and "width p * 3 < 2 ^ 31" and "height p < 2 ^ 31"
    and "width p * height p * 3 < 2 ^ 32" and "nat (width p * height p * 3) \<le> length rgb"
    and "planes frame = [Some rgb]" and "line_block e = Some block"
  shows "process_frame_sw enc e frame p g
           = Some (p\<lparr>frame_num := frame_num p + 1\<rparr>,
                   copy_frame (frame_alloc e) (clock e)
                     (encoded_swapped enc (quality p) (width p) (height p) rgb)
                     (length (encoded_swapped enc (quality p) (width p) (height p) rgb))
                     (p\<lparr>frame_num := frame_num p + 1\<rparr>) g)"
  using assms(7,8) rgb_to_jpeg_result [OF assms(1-6), of enc "quality p" block]
  by (simp add: process_frame_sw_def Let_def split: prod.splits)

text \<open>
  Claim C9. For an image of \<open>w\<close> by \<open>h\<close> pixels that fits its buffer, with the sizes in
  the range where neither \<^verbatim>\<open>img_width * 3\<close> nor the row offset overflows,
  \<^verbatim>\<open>rgb_to_jpeg\<close> hands the compressor row after row of the image with bytes 0 and 2
  of every pixel exchanged, returns 0, and sets the output size to the number of bytes
  the compressor produced; and \<^verbatim>\<open>process_frame\<close> of the software variant, when the
  allocation of the frame succeeds, publishes exactly these bytes.
\<close>

theorem software_frame_is_swapped:
  assumes "0 \<le> w" and "0 \<le> h" and "w * 3 < 2 ^ 31" and "h < 2 ^ 31"
    and "w * h * 3 < 2 ^ 32" and "nat (w * h * 3) \<le> length rgb"
  shows "rgb_to_jpeg enc q (Some block) (Some rgb) w h
           = (0, Some (encoded_swapped enc q w h rgb, length (encoded_swapped enc q w h rgb)))
       \<and> (width p = w \<and> height p = h \<and> quality p = q \<and> planes frame = [Some rgb]
            \<and> line_block e = Some block \<and> frame_alloc e \<and> plugin_number p < length (inp g)
          \<longrightarrow> (\<exists>p' g' evs. process_frame_sw enc e frame p g = Some (p', g', evs)
                \<and> buf (inp g' ! plugin_number p) = Some (encoded_swapped enc q w h rgb)
                \<and> size_in (inp g' ! plugin_number p) = length (encoded_swapped enc q w h rgb)))"
proof (intro conjI impI)
  show "rgb_to_jpeg enc q (Some block) (Some rgb) w h
           = (0, Some (encoded_swapped enc q w h rgb, length (encoded_swapped enc q w h rgb)))"
    using assms by (rule rgb_to_jpeg_result)
next
  let ?out = "encoded_swapped enc q w h rgb"
  let ?p1 = "p\<lparr>frame_num := frame_num p + 1\<rparr>"
  assume a: "width p = w \<and> height p = h \<and> quality p = q \<and> planes frame = [Some rgb]
            \<and> line_block e = Some block \<and> frame_alloc e \<and> plugin_number p < length (inp g)"
  then have pf: "process_frame_sw enc e frame p g
           = Some (?p1, copy_frame True (clock e) ?out (length ?out) ?p1 g)"
    using assms process_frame_sw_result [of p rgb frame e block enc g] by simp
  have i: "plugin_number ?p1 < length (inp g)" using a by simp
  have "inp (fst (copy_frame True (clock e) ?out (length ?out) ?p1 g)) ! plugin_number ?p1
          = (inp g ! plugin_number ?p1)\<lparr>buf := Some (take (length ?out) ?out),
               size_in := length ?out, timestamp := clock e\<rparr>"
    using copy_frame_self [OF i, where ok = True and now = "clock e" and n = "length ?out" and b = ?out]
    by simp
  then have "buf (inp (fst (copy_frame True (clock e) ?out (length ?out) ?p1 g)) ! plugin_number p)
               = Some ?out
           \<and> size_in (inp (fst (copy_frame True (clock e) ?out (length ?out) ?p1 g)) ! plugin_number p)
               = length ?out"
    by simp
  with pf show "\<exists>p' g' evs. process_frame_sw enc e frame p g = Some (p', g', evs)
                \<and> buf (inp g' ! plugin_number p) = Some ?out
                \<and> size_in (inp g' ! plugin_number p) = length ?out"
    by (cases "copy_frame True (clock e) ?out (length ?out) ?p1 g") auto
qed

lemma encoded_demo:
  "encoded_swapped demo_encoder 85 2 2 img_demo = [3, 2, 1, 6, 5, 4, 9, 8, 7, 12, 11, 10]"
  by code_simp

theorem software_frame_is_swapped_witness:
  "(0::int) \<le> 2 \<and> (2::int) * 3 < 2 ^ 31 \<and> (2::int) < 2 ^ 31 \<and> (2::int) * 2 * 3 < 2 ^ 32
   \<and> nat (2 * 2 * 3) \<le> length img_demo
   \<and> rgb_to_jpeg demo_encoder 85 (Some (\<lambda>i. 0)) (Some img_demo) 2 2
       = (0, Some ([3, 2, 1, 6, 5, 4, 9, 8, 7, 12, 11, 10], 12))
   \<and> width p_sw = 2 \<and> height p_sw = 2 \<and> quality p_sw = 85 \<and> planes frame_sw = [Some img_demo]
   \<and> line_block e_sw = Some (\<lambda>i. 0) \<and> frame_alloc e_sw \<and> plugin_number p_sw < length (inp g_demo)
   \<and> (\<exists>p' g' evs. process_frame_sw demo_encoder e_sw frame_sw p_sw g_demo = Some (p', g', evs)
         \<and> buf (inp g' ! 0) = Some [3, 2, 1, 6, 5, 4, 9, 8, 7, 12, 11, 10]
         \<and> size_in (inp g' ! 0) = 12)"
proof -
  have len: "nat (2 * 2 * 3) \<le> length img_demo"
    by (simp add: img_demo_def)
  have side: "width p_sw = 2 \<and> height p_sw = 2 \<and> quality p_sw = 85
      \<and> planes frame_sw = [Some img_demo] \<and> line_block e_sw = Some (\<lambda>i. 0) \<and> frame_alloc e_sw
      \<and> plugin_number p_sw < length (inp g_demo)"
    by (simp add: p_sw_def frame_sw_def e_sw_def g_demo_def)
  have l: "length [3, 2, 1, 6, 5, 4, 9, 8, 7, 12, 11, 10 :: byte] = 12"
    by simp
  have n: "plugin_number p_sw = 0"
    by (simp add: p_sw_def)
  have th: "rgb_to_jpeg demo_encoder 85 (Some (\<lambda>i. 0)) (Some img_demo) 2 2
           = (0, Some (encoded_swapped demo_encoder 85 2 2 img_demo,
                       length (encoded_swapped demo_encoder 85 2 2 img_demo)))
       \<and> (width p_sw = 2 \<and> height p_sw = 2 \<and> quality p_sw = 85 \<and> planes frame_sw = [Some img_demo]
            \<and> line_block e_sw = Some (\<lambda>i. 0) \<and> frame_alloc e_sw
            \<and> plugin_number p_sw < length (inp g_demo)
          \<longrightarrow> (\<exists>p' g' evs. process_frame_sw demo_encoder e_sw frame_sw p_sw g_demo = Some (p', g', evs)
                \<and> buf (inp g' ! plugin_number p_sw) = Some (encoded_swapped demo_encoder 85 2 2 img_demo)
                \<and> size_in (inp g' ! plugin_number p_sw)
                    = length (encoded_swapped demo_encoder 85 2 2 img_demo)))"
    by (rule software_frame_is_swapped) (simp_all add: img_demo_def)
  from th [unfolded encoded_demo l] side len show ?thesis
    by (simp add: n)
qed

end
